theory Spec2Isabelle
  imports Main
begin

section \<open>The command-line adapter \<open>ai_worker.py\<close>\<close>

text \<open>
  The program reads \<open>sys.argv\<close>, makes at most one call of the chat function of the
  Ollama client library and writes to the two standard streams. The model passes the
  outside world explicitly: the text written so far to standard output and to standard
  error, and the log of the requests handed to the chat backend.

  Python's \<open>str\<close> is a sequence of code points. A \<open>char\<close> stands for one code point
  in the range 0..255, so a \<open>string\<close> is a Python string over that range.
\<close>

subsection \<open>Data\<close>

text \<open>One entry of the \<open>messages\<close> argument: the dictionary
  \<open>{"role": ..., "content": ...}\<close>.\<close>

record message =
  role :: string
  content :: string

text \<open>The keyword arguments of one call \<open>chat(model=..., messages=[...])\<close>.\<close>

record request =
  model :: string
  messages :: "message list"

text \<open>
  An exception object, as far as the program looks at it: whether it is an instance of
  the class \<open>Exception\<close> (the clause \<open>except Exception\<close> catches these and no other
  \<open>BaseException\<close>), and the text \<open>str(e)\<close> that the f-string \<open>{e}\<close> renders.
\<close>

datatype py_exception = PyException (is_Exception: bool) (str_of: string)

text \<open>
  What the call of the library's \<open>chat\<close> does: it returns a \<open>ChatResponse\<close>, of which
  the program reads \<open>response.message.content\<close> only, a string, or it raises.
\<close>

datatype chat_result = Response string | Raises py_exception

type_synonym backend = "request \<Rightarrow> chat_result"

record world =
  stdout :: string
  stderr :: string
  requests :: "request list"

text \<open>A process that has just started has written nothing and called nothing.\<close>

definition start :: world where
  "start = \<lparr>stdout = [], stderr = [], requests = []\<rparr>"

subsection \<open>The library operations the program uses\<close>

text \<open>\<open>sys.stderr.write(s)\<close> appends \<open>s\<close> to standard error.\<close>

definition stderr_write :: "string \<Rightarrow> world \<Rightarrow> world" where
  "stderr_write s w = w\<lparr>stderr := stderr w @ s\<rparr>"

text \<open>
  The encoding of standard output, as far as the program meets it: for a text, \<open>None\<close>
  when the encoding has every character of the text, and otherwise the message of the
  \<open>UnicodeEncodeError\<close> that writing the text raises. Standard error replaces what its
  encoding lacks by escapes and takes every text.
\<close>

type_synonym encoding = "string \<Rightarrow> string option"

text \<open>
  \<open>print(s)\<close> writes \<open>s\<close> and then a newline to standard output. The stream encodes
  a text before it takes any of it: when the encoding lacks a character of \<open>s\<close>, the
  write raises \<open>UnicodeEncodeError\<close>, an instance of \<open>Exception\<close>, and nothing has been
  written. Every encoding has the newline.
\<close>

definition print :: "encoding \<Rightarrow> string \<Rightarrow> world \<Rightarrow> (py_exception + unit) \<times> world" where
  "print enc s w =
     (case enc s of
        Some msg \<Rightarrow> (Inl (PyException True msg), w)
      | None \<Rightarrow> (Inr (), w\<lparr>stdout := stdout w @ s @ ''\<newline>''\<rparr>))"

text \<open>\<open>chat(model=m, messages=ms)\<close> hands one request to the backend.\<close>

definition chat :: "backend \<Rightarrow> string \<Rightarrow> message list \<Rightarrow> world \<Rightarrow> chat_result \<times> world" where
  "chat b m ms w =
     (let req = \<lparr>model = m, messages = ms\<rparr>
      in (b req, w\<lparr>requests := requests w @ [req]\<rparr>))"

text \<open>
  \<open>str.lower\<close> on the code points 0..255: the letters A..Z and the capital letters
  of the Latin-1 block (192..222 without the multiplication sign 215) move up by 32,
  every other code point stays.
\<close>

definition lower_char :: "char \<Rightarrow> char" where
  "lower_char c =
     (let n = (of_char c :: nat)
      in if (65 \<le> n \<and> n \<le> 90) \<or> (192 \<le> n \<and> n \<le> 222 \<and> n \<noteq> 215)
         then char_of (n + 32) else c)"

definition lower :: "string \<Rightarrow> string" where
  "lower s = map lower_char s"

text \<open>\<open>sep.join(xs)\<close>: the elements of \<open>xs\<close> with \<open>sep\<close> between neighbours.\<close>

fun join :: "string \<Rightarrow> string list \<Rightarrow> string" where
  "join sep [] = []"
| "join sep [x] = x"
| "join sep (x # y # ys) = x @ sep @ join sep (y # ys)"

subsection \<open>The program\<close>

text \<open>
  \<open>ollama_chat(prompt_text, model="deepseek-r1:1.5b")\<close>. The optional argument is
  \<open>None\<close> when the caller leaves it out. The result is \<open>Inr ()\<close> when the function
  returns and \<open>Inl e\<close> when the exception \<open>e\<close> leaves it. The body of the \<open>try\<close> is the
  call of \<open>chat\<close> followed by the \<open>print\<close>; the \<open>except Exception\<close> clause handles what
  either of them raises.
\<close>

definition ollama_chat ::
  "encoding \<Rightarrow> backend \<Rightarrow> string \<Rightarrow> string option \<Rightarrow> world \<Rightarrow>
     (py_exception + unit) \<times> world" where
  "ollama_chat enc b prompt_text model_arg w =
     (let m = (case model_arg of None \<Rightarrow> ''deepseek-r1:1.5b'' | Some m' \<Rightarrow> m');
          (r, w1) = chat b m [\<lparr>role = ''user'', content = prompt_text\<rparr>] w;
          (tried, w2) = (case r of Raises e \<Rightarrow> (Inl e, w1) | Response c \<Rightarrow> print enc c w1)
      in case tried of
           Inr u \<Rightarrow> (Inr (), w2)
         | Inl e \<Rightarrow>
             if is_Exception e
             then (Inr (), stderr_write (''Error in ollama_chat: '' @ str_of e @ ''\<newline>'') w2)
             else (Inl e, w2))"

text \<open>\<open>main()\<close>, with \<open>sys.argv\<close> as the argument \<open>argv\<close>.\<close>

definition main ::
  "encoding \<Rightarrow> backend \<Rightarrow> string list \<Rightarrow> world \<Rightarrow> (py_exception + unit) \<times> world" where
  "main enc b argv w =
     (if length argv < 3
      then (Inr (), stderr_write ''Usage: ai_worker.py ollama <prompt_text>\<newline>'' w)
      else
        let command = lower (argv ! 1)
        in if command = ''ollama''
           then ollama_chat enc b (join '' '' (drop 2 argv)) None w
           else (Inr (),
                 stderr_write ''Unknown command. Use: ai_worker.py ollama <prompt_text>\<newline>'' w))"

text \<open>
  The script run as a process, \<open>if __name__ == "__main__": main()\<close>: \<open>sys.argv\<close> is
  the script's name \<open>prog\<close> followed by the command-line arguments, and nothing has been
  written yet. The encoding \<open>enc\<close> of standard output comes from the environment.
\<close>

definition invoke ::
  "encoding \<Rightarrow> backend \<Rightarrow> string \<Rightarrow> string list \<Rightarrow> (py_exception + unit) \<times> world" where
  "invoke enc b prog args = main enc b (prog # args) start"

subsection \<open>The specification's wording\<close>

text \<open>
  The prompt as the specification words it: the concatenation of the trailing arguments,
  each one after the first preceded by a single space.
\<close>

definition spec_prompt_text :: "string list \<Rightarrow> string" where
  "spec_prompt_text xs =
     (case xs of [] \<Rightarrow> [] | x # ys \<Rightarrow> concat (x # map (\<lambda>y. CHR '' '' # y) ys))"

text \<open>The backend stubs of the specification's test properties.\<close>

definition stub_reply :: "string \<Rightarrow> backend" where
  "stub_reply c = (\<lambda>req. Response c)"

definition stub_raise :: "py_exception \<Rightarrow> backend" where
  "stub_raise e = (\<lambda>req. Raises e)"

text \<open>Two encodings of standard output. UTF-8 has every code point.\<close>

definition utf8_stdout :: encoding where
  "utf8_stdout = (\<lambda>s. None)"

text \<open>
  ASCII has the code points below 128 only; \<open>msg\<close> is the message of the error that a
  text with any other code point raises.
\<close>

definition ascii_stdout :: "string \<Rightarrow> encoding" where
  "ascii_stdout msg = (\<lambda>s. if list_all (\<lambda>c. (of_char c :: nat) < 128) s then None else Some msg)"

text \<open>
  The message of the \<open>UnicodeEncodeError\<close> that Python's ASCII codec raises for the text
  \<open>caf\<close> followed by the code point 233 (e with acute accent):
  \<open>'ascii' codec can't encode character '\xe9' in position 3: ordinal not in range(128)\<close>.
\<close>

definition ascii_error_cafe :: string where
  "ascii_error_cafe =
     [CHR 0x27] @ ''ascii'' @ [CHR 0x27] @ '' codec can'' @ [CHR 0x27] @
     ''t encode character '' @ [CHR 0x27, CHR 0x5C] @ ''xe9'' @ [CHR 0x27] @
     '' in position 3: ordinal not in range(128)''"

section \<open>Properties\<close>

subsection \<open>The branches of the program\<close>

lemma lower_upper_case: "lower ''OLLAMA'' = ''ollama''"
  by code_simp

lemma lower_mixed_case: "lower ''Ollama'' = ''ollama''"
  by code_simp

lemma lower_lower_case: "lower ''ollama'' = ''ollama''"
  by code_simp

lemma lower_chat: "lower ''chat'' = ''chat''"
  by code_simp

lemma main_args:
  "main enc b (prog # args) w =
     (if length args < 2
      then (Inr (), stderr_write ''Usage: ai_worker.py ollama <prompt_text>\<newline>'' w)
      else if lower (hd args) = ''ollama''
      then ollama_chat enc b (join '' '' (tl args)) None w
      else (Inr (),
            stderr_write ''Unknown command. Use: ai_worker.py ollama <prompt_text>\<newline>'' w))"
proof (cases args)
  case Nil
  then show ?thesis by (simp add: main_def)
next
  case (Cons cmd rest)
  have "length (prog # args) < 3 \<longleftrightarrow> length args < 2" by auto
  moreover have "(prog # args) ! 1 = hd args" using Cons by simp
  moreover have "drop 2 (prog # args) = tl args" using Cons by (simp add: numeral_2_eq_2)
  ultimately show ?thesis unfolding main_def Let_def by presburger
qed

lemma ollama_chat_requests:
  "requests (snd (ollama_chat enc b prompt_text model_arg w)) =
     requests w @
       [\<lparr>model = (case model_arg of None \<Rightarrow> ''deepseek-r1:1.5b'' | Some m \<Rightarrow> m),
         messages = [\<lparr>role = ''user'', content = prompt_text\<rparr>]\<rparr>]"
  by (simp add: ollama_chat_def chat_def print_def stderr_write_def Let_def
           split: chat_result.split option.split)

lemma ollama_chat_Response:
  assumes "b \<lparr>model = (case model_arg of None \<Rightarrow> ''deepseek-r1:1.5b'' | Some m \<Rightarrow> m),
              messages = [\<lparr>role = ''user'', content = prompt_text\<rparr>]\<rparr> = Response c"
      and "enc c = None"
  shows "fst (ollama_chat enc b prompt_text model_arg w) = Inr ()"
    and "stdout (snd (ollama_chat enc b prompt_text model_arg w)) = stdout w @ c @ ''\<newline>''"
    and "stderr (snd (ollama_chat enc b prompt_text model_arg w)) = stderr w"
  using assms by (simp_all add: ollama_chat_def chat_def print_def Let_def)

text \<open>A reply that standard output cannot encode: the error of the \<open>print\<close> is caught
  like an error of the backend.\<close>

lemma ollama_chat_unencodable:
  assumes "b \<lparr>model = (case model_arg of None \<Rightarrow> ''deepseek-r1:1.5b'' | Some m \<Rightarrow> m),
              messages = [\<lparr>role = ''user'', content = prompt_text\<rparr>]\<rparr> = Response c"
      and "enc c = Some msg"
  shows "fst (ollama_chat enc b prompt_text model_arg w) = Inr ()"
    and "stdout (snd (ollama_chat enc b prompt_text model_arg w)) = stdout w"
    and "stderr (snd (ollama_chat enc b prompt_text model_arg w)) =
           stderr w @ ''Error in ollama_chat: '' @ msg @ ''\<newline>''"
  using assms by (simp_all add: ollama_chat_def chat_def print_def stderr_write_def Let_def)

lemma ollama_chat_Exception:
  assumes "b \<lparr>model = (case model_arg of None \<Rightarrow> ''deepseek-r1:1.5b'' | Some m \<Rightarrow> m),
              messages = [\<lparr>role = ''user'', content = prompt_text\<rparr>]\<rparr> = Raises e"
      and "is_Exception e"
  shows "fst (ollama_chat enc b prompt_text model_arg w) = Inr ()"
    and "stdout (snd (ollama_chat enc b prompt_text model_arg w)) = stdout w"
    and "stderr (snd (ollama_chat enc b prompt_text model_arg w)) =
           stderr w @ ''Error in ollama_chat: '' @ str_of e @ ''\<newline>''"
  using assms by (simp_all add: ollama_chat_def chat_def stderr_write_def Let_def)

text \<open>An exception outside the class \<open>Exception\<close> is not caught: it leaves the function,
  and nothing has been written.\<close>

lemma ollama_chat_uncaught:
  assumes "b \<lparr>model = (case model_arg of None \<Rightarrow> ''deepseek-r1:1.5b'' | Some m \<Rightarrow> m),
              messages = [\<lparr>role = ''user'', content = prompt_text\<rparr>]\<rparr> = Raises e"
      and "\<not> is_Exception e"
  shows "fst (ollama_chat enc b prompt_text model_arg w) = Inl e"
    and "stdout (snd (ollama_chat enc b prompt_text model_arg w)) = stdout w"
    and "stderr (snd (ollama_chat enc b prompt_text model_arg w)) = stderr w"
  using assms by (simp_all add: ollama_chat_def chat_def Let_def)

lemma invoke_usage:
  assumes "length args < 2"
  shows "invoke enc b prog args =
           (Inr (), start\<lparr>stderr := ''Usage: ai_worker.py ollama <prompt_text>\<newline>''\<rparr>)"
  using assms by (simp add: invoke_def main_args stderr_write_def start_def)

lemma invoke_unknown:
  assumes "2 \<le> length args" and "lower (hd args) \<noteq> ''ollama''"
  shows "invoke enc b prog args =
           (Inr (), start\<lparr>stderr :=
              ''Unknown command. Use: ai_worker.py ollama <prompt_text>\<newline>''\<rparr>)"
  using assms by (simp add: invoke_def main_args stderr_write_def start_def)

lemma invoke_chat:
  assumes "2 \<le> length args" and "lower (hd args) = ''ollama''"
  shows "invoke enc b prog args = ollama_chat enc b (join '' '' (tl args)) None start"
  using assms by (simp add: invoke_def main_args)

lemma invoke_requests:
  "requests (snd (invoke enc b prog args)) =
     (if 2 \<le> length args \<and> lower (hd args) = ''ollama''
      then [\<lparr>model = ''deepseek-r1:1.5b'',
              messages = [\<lparr>role = ''user'', content = join '' '' (tl args)\<rparr>]\<rparr>]
      else [])"
proof (cases "length args < 2")
  case True
  then show ?thesis by (simp add: invoke_usage start_def)
next
  case False
  then have two: "2 \<le> length args" by simp
  show ?thesis
  proof (cases "lower (hd args) = ''ollama''")
    case True
    with two show ?thesis
      by (simp add: invoke_chat ollama_chat_requests start_def)
  next
    case False
    with two show ?thesis by (simp add: invoke_unknown start_def)
  qed
qed

lemma join_space_spec: "join '' '' xs = spec_prompt_text xs"
proof (induction "'' ''" xs rule: join.induct)
  case 1
  show ?case by (simp add: spec_prompt_text_def)
next
  case (2 x)
  show ?case by (simp add: spec_prompt_text_def)
next
  case (3 x y ys)
  then show ?case by (simp add: spec_prompt_text_def)
qed

subsection \<open>Success path\<close>

text \<open>
  Claim C1, as stated: for every invocation whose first argument matches \<open>ollama\<close>
  case-insensitively, if the backend call returns a response whose message content is
  the string \<open>c\<close>, the program writes exactly \<open>c\<close> followed by one newline to standard
  output and nothing to standard error. With a standard output encoded as ASCII and the
  reply \<open>caf\<close> followed by the code point 233, the backend call returns the reply, the
  \<open>print\<close> inside the \<open>try\<close> raises, the \<open>except\<close> clause catches the error: standard
  output stays empty and standard error carries the error line.
\<close>

theorem unencodable_reply_not_printed:
  "lower ''ollama'' = ''ollama'' \<and>
   requests (snd (invoke (ascii_stdout ascii_error_cafe) (stub_reply (''caf'' @ [CHR 0xE9]))
                    ''ai_worker.py'' [''ollama'', ''hi''])) =
     [\<lparr>model = ''deepseek-r1:1.5b'', messages = [\<lparr>role = ''user'', content = ''hi''\<rparr>]\<rparr>] \<and>
   stub_reply (''caf'' @ [CHR 0xE9])
     \<lparr>model = ''deepseek-r1:1.5b'', messages = [\<lparr>role = ''user'', content = ''hi''\<rparr>]\<rparr> =
     Response (''caf'' @ [CHR 0xE9]) \<and>
   stdout (snd (invoke (ascii_stdout ascii_error_cafe) (stub_reply (''caf'' @ [CHR 0xE9]))
                  ''ai_worker.py'' [''ollama'', ''hi''])) = [] \<and>
   stderr (snd (invoke (ascii_stdout ascii_error_cafe) (stub_reply (''caf'' @ [CHR 0xE9]))
                  ''ai_worker.py'' [''ollama'', ''hi''])) =
     ''Error in ollama_chat: '' @ ascii_error_cafe @ ''\<newline>''"
proof -
  let ?enc = "ascii_stdout ascii_error_cafe"
  let ?b = "stub_reply (''caf'' @ [CHR 0xE9])"
  have cmd: "lower ''ollama'' = ''ollama''"
    by (rule lower_lower_case)
  have reply: "?b \<lparr>model = ''deepseek-r1:1.5b'',
                   messages = [\<lparr>role = ''user'', content = ''hi''\<rparr>]\<rparr> =
               Response (''caf'' @ [CHR 0xE9])"
    by (simp add: stub_reply_def)
  have rejected: "?enc (''caf'' @ [CHR 0xE9]) = Some ascii_error_cafe"
    by (simp add: ascii_stdout_def)
  have reqs: "requests (snd (invoke ?enc ?b ''ai_worker.py'' [''ollama'', ''hi''])) =
     [\<lparr>model = ''deepseek-r1:1.5b'', messages = [\<lparr>role = ''user'', content = ''hi''\<rparr>]\<rparr>]"
    by (simp add: invoke_requests cmd)
  have run: "invoke ?enc ?b ''ai_worker.py'' [''ollama'', ''hi''] =
             ollama_chat ?enc ?b ''hi'' None start"
    by (simp add: invoke_chat cmd)
  have caught: "stdout (snd (ollama_chat ?enc ?b ''hi'' None start)) = stdout start"
    "stderr (snd (ollama_chat ?enc ?b ''hi'' None start)) =
       stderr start @ ''Error in ollama_chat: '' @ ascii_error_cafe @ ''\<newline>''"
    using ollama_chat_unencodable(2,3)
            [where enc = ?enc and b = ?b and model_arg = None and prompt_text = "''hi''"
               and c = "''caf'' @ [CHR 0xE9]" and msg = ascii_error_cafe and w = start]
          reply rejected
    by simp_all
  have out: "stdout (snd (invoke ?enc ?b ''ai_worker.py'' [''ollama'', ''hi''])) = []"
    by (simp only: run caught) (simp add: start_def)
  have err: "stderr (snd (invoke ?enc ?b ''ai_worker.py'' [''ollama'', ''hi''])) =
     ''Error in ollama_chat: '' @ ascii_error_cafe @ ''\<newline>''"
    by (simp only: run caught) (simp add: start_def)
  from cmd reqs reply out err show ?thesis
    by (intro conjI)
qed

text \<open>
  Claim C1, amended: for every invocation whose first argument matches \<open>ollama\<close>
  case-insensitively, if the backend call returns a response whose message content is
  the string \<open>c\<close> and the encoding of standard output has every character of \<open>c\<close>, the
  program writes exactly \<open>c\<close> followed by one newline to standard output and nothing to
  standard error. The backend call of the invocation is the one request \<open>req\<close> in its
  log, and \<open>b req\<close> is what the backend does with it.
\<close>

theorem encodable_reply_printed_to_stdout:
  assumes "lower cmd = ''ollama''"
      and "requests (snd (invoke enc b prog (cmd # rest))) = [req]"
      and "b req = Response c"
      and "enc c = None"
  shows "stdout (snd (invoke enc b prog (cmd # rest))) = c @ ''\<newline>'' \<and>
         stderr (snd (invoke enc b prog (cmd # rest))) = []"
proof -
  let ?r = "\<lparr>model = ''deepseek-r1:1.5b'',
             messages = [\<lparr>role = ''user'', content = join '' '' (tl (cmd # rest))\<rparr>]\<rparr>"
  from assms(2) have two: "2 \<le> length (cmd # rest)" and req: "req = ?r"
    by (simp_all add: invoke_requests split: if_splits)
  from two assms(1) have run: "invoke enc b prog (cmd # rest) =
      ollama_chat enc b (join '' '' (tl (cmd # rest))) None start"
    by (simp add: invoke_chat)
  from assms(3) req have "b ?r = Response c"
    by simp
  with ollama_chat_Response(2,3)
         [where enc = enc and b = b and model_arg = None
            and prompt_text = "join '' '' (tl (cmd # rest))" and c = c and w = start]
       assms(4)
  show ?thesis
    by (simp add: run start_def)
qed

theorem encodable_reply_printed_to_stdout_witness:
  "lower ''ollama'' = ''ollama'' \<and>
   requests (snd (invoke utf8_stdout (stub_reply ''4'') ''ai_worker.py'' [''ollama'', ''2+2?''])) =
     [\<lparr>model = ''deepseek-r1:1.5b'', messages = [\<lparr>role = ''user'', content = ''2+2?''\<rparr>]\<rparr>] \<and>
   stub_reply ''4''
     \<lparr>model = ''deepseek-r1:1.5b'', messages = [\<lparr>role = ''user'', content = ''2+2?''\<rparr>]\<rparr> =
     Response ''4'' \<and>
   utf8_stdout ''4'' = None \<and>
   stdout (snd (invoke utf8_stdout (stub_reply ''4'') ''ai_worker.py'' [''ollama'', ''2+2?''])) =
     ''4\<newline>'' \<and>
   stderr (snd (invoke utf8_stdout (stub_reply ''4'') ''ai_worker.py'' [''ollama'', ''2+2?''])) = []"
proof -
  have h1: "lower ''ollama'' = ''ollama''"
    by (rule lower_lower_case)
  have h2: "requests (snd (invoke utf8_stdout (stub_reply ''4'') ''ai_worker.py''
                             [''ollama'', ''2+2?''])) =
     [\<lparr>model = ''deepseek-r1:1.5b'', messages = [\<lparr>role = ''user'', content = ''2+2?''\<rparr>]\<rparr>]"
    by (simp add: invoke_requests h1)
  have h3: "stub_reply ''4''
     \<lparr>model = ''deepseek-r1:1.5b'', messages = [\<lparr>role = ''user'', content = ''2+2?''\<rparr>]\<rparr> =
     Response ''4''"
    by (simp add: stub_reply_def)
  have h4: "utf8_stdout ''4'' = None"
    by (simp add: utf8_stdout_def)
  from encodable_reply_printed_to_stdout [OF h1 h2 h3 h4] h1 h2 h3 h4 show ?thesis
    by simp
qed

subsection \<open>Backend failure\<close>

text \<open>
  Claim C2. For every invocation that reaches the chat operation: if the backend call
  raises an error whose message is \<open>m\<close>, the program writes nothing to standard output,
  writes exactly \<open>Error in ollama_chat: \<close>, \<open>m\<close> and a newline to standard error, and
  returns normally; the error does not leave the program. An error is an instance of
  Python's class \<open>Exception\<close>, and its message is \<open>str(e)\<close>.
\<close>

theorem backend_error_reported_on_stderr:
  assumes "requests (snd (invoke enc b prog args)) = [req]"
      and "b req = Raises e"
      and "is_Exception e"
      and "str_of e = m"
  shows "stdout (snd (invoke enc b prog args)) = [] \<and>
         stderr (snd (invoke enc b prog args)) = ''Error in ollama_chat: '' @ m @ ''\<newline>'' \<and>
         fst (invoke enc b prog args) = Inr ()"
proof -
  let ?r = "\<lparr>model = ''deepseek-r1:1.5b'',
             messages = [\<lparr>role = ''user'', content = join '' '' (tl args)\<rparr>]\<rparr>"
  from assms(1) have two: "2 \<le> length args" and cmd: "lower (hd args) = ''ollama''"
    and req: "req = ?r"
    by (simp_all add: invoke_requests split: if_splits)
  from two cmd have run: "invoke enc b prog args = ollama_chat enc b (join '' '' (tl args)) None start"
    by (rule invoke_chat)
  from assms(2) req have "b ?r = Raises e"
    by simp
  with ollama_chat_Exception
         [where enc = enc and b = b and model_arg = None
            and prompt_text = "join '' '' (tl args)" and e = e and w = start]
       assms(3,4)
  show ?thesis
    by (simp add: run start_def)
qed

theorem backend_error_reported_on_stderr_witness:
  "requests (snd (invoke utf8_stdout (stub_raise (PyException True ''connection refused''))
                         ''ai_worker.py'' [''ollama'', ''hi''])) =
     [\<lparr>model = ''deepseek-r1:1.5b'', messages = [\<lparr>role = ''user'', content = ''hi''\<rparr>]\<rparr>] \<and>
   stub_raise (PyException True ''connection refused'')
     \<lparr>model = ''deepseek-r1:1.5b'', messages = [\<lparr>role = ''user'', content = ''hi''\<rparr>]\<rparr> =
     Raises (PyException True ''connection refused'') \<and>
   is_Exception (PyException True ''connection refused'') \<and>
   str_of (PyException True ''connection refused'') = ''connection refused'' \<and>
   stdout (snd (invoke utf8_stdout (stub_raise (PyException True ''connection refused''))
                       ''ai_worker.py'' [''ollama'', ''hi''])) = [] \<and>
   stderr (snd (invoke utf8_stdout (stub_raise (PyException True ''connection refused''))
                       ''ai_worker.py'' [''ollama'', ''hi''])) =
     ''Error in ollama_chat: connection refused\<newline>'' \<and>
   fst (invoke utf8_stdout (stub_raise (PyException True ''connection refused''))
               ''ai_worker.py'' [''ollama'', ''hi'']) = Inr ()"
proof -
  let ?e = "PyException True ''connection refused''"
  have h1: "requests (snd (invoke utf8_stdout (stub_raise ?e) ''ai_worker.py'' [''ollama'', ''hi''])) =
     [\<lparr>model = ''deepseek-r1:1.5b'', messages = [\<lparr>role = ''user'', content = ''hi''\<rparr>]\<rparr>]"
    by (simp add: invoke_requests lower_lower_case)
  have h2: "stub_raise ?e
     \<lparr>model = ''deepseek-r1:1.5b'', messages = [\<lparr>role = ''user'', content = ''hi''\<rparr>]\<rparr> =
     Raises ?e"
    by (simp add: stub_raise_def)
  have h3: "is_Exception ?e" by simp
  have h4: "str_of ?e = ''connection refused''" by simp
  from backend_error_reported_on_stderr [OF h1 h2 h3 h4] h1 h2 show ?thesis
    by simp
qed

subsection \<open>Too few arguments\<close>

text \<open>
  Claim C3. For every invocation with fewer than two arguments (none or one after the
  program name), the program writes nothing to standard output, writes a usage message to
  standard error, makes no backend call and terminates normally.
\<close>

theorem too_few_arguments_usage:
  assumes "length args < 2"
  shows "stdout (snd (invoke enc b prog args)) = [] \<and>
         stderr (snd (invoke enc b prog args)) = ''Usage: ai_worker.py ollama <prompt_text>\<newline>'' \<and>
         requests (snd (invoke enc b prog args)) = [] \<and>
         fst (invoke enc b prog args) = Inr ()"
  using assms by (simp add: invoke_usage start_def)

theorem too_few_arguments_usage_witness:
  "length [''ollama''] < 2 \<and>
   stdout (snd (invoke utf8_stdout (stub_reply ''4'') ''ai_worker.py'' [''ollama''])) = [] \<and>
   stderr (snd (invoke utf8_stdout (stub_reply ''4'') ''ai_worker.py'' [''ollama''])) =
     ''Usage: ai_worker.py ollama <prompt_text>\<newline>'' \<and>
   requests (snd (invoke utf8_stdout (stub_reply ''4'') ''ai_worker.py'' [''ollama''])) = [] \<and>
   fst (invoke utf8_stdout (stub_reply ''4'') ''ai_worker.py'' [''ollama'']) = Inr ()"
proof -
  have h: "length [''ollama''] < 2" by simp
  from too_few_arguments_usage [OF h] h show ?thesis
    by simp
qed

text \<open>
  Claim C10. For every invocation with fewer than two arguments, the usage message
  written to standard error is exactly the string
  \<open>Usage: ai_worker.py ollama <prompt_text>\<close> followed by a newline.
\<close>

theorem usage_message_text:
  assumes "length args < 2"
  shows "stderr (snd (invoke enc b prog args)) = ''Usage: ai_worker.py ollama <prompt_text>\<newline>''"
  using assms by (simp add: invoke_usage)

theorem usage_message_text_witness:
  "length ([] :: string list) < 2 \<and>
   stderr (snd (invoke utf8_stdout (stub_reply ''4'') ''ai_worker.py'' [])) =
     ''Usage: ai_worker.py ollama <prompt_text>\<newline>''"
proof -
  have h: "length ([] :: string list) < 2" by simp
  from usage_message_text [OF h] h show ?thesis
    by simp
qed

subsection \<open>Unknown command\<close>

text \<open>
  Claim C4. For every invocation with at least two arguments whose first argument,
  lowercased, is not \<open>ollama\<close>, the program writes nothing to standard output, writes
  exactly \<open>Unknown command. Use: ai_worker.py ollama <prompt_text>\<close> and a newline to
  standard error, makes no backend call and terminates normally.
\<close>

theorem unknown_command_reported:
  assumes "2 \<le> length args"
      and "lower (hd args) \<noteq> ''ollama''"
  shows "stdout (snd (invoke enc b prog args)) = [] \<and>
         stderr (snd (invoke enc b prog args)) =
           ''Unknown command. Use: ai_worker.py ollama <prompt_text>\<newline>'' \<and>
         requests (snd (invoke enc b prog args)) = [] \<and>
         fst (invoke enc b prog args) = Inr ()"
  using assms by (simp add: invoke_unknown start_def)

theorem unknown_command_reported_witness:
  "2 \<le> length [''chat'', ''hello''] \<and>
   lower (hd [''chat'', ''hello'']) \<noteq> ''ollama'' \<and>
   stdout (snd (invoke utf8_stdout (stub_reply ''4'') ''ai_worker.py'' [''chat'', ''hello''])) = [] \<and>
   stderr (snd (invoke utf8_stdout (stub_reply ''4'') ''ai_worker.py'' [''chat'', ''hello''])) =
     ''Unknown command. Use: ai_worker.py ollama <prompt_text>\<newline>'' \<and>
   requests (snd (invoke utf8_stdout (stub_reply ''4'') ''ai_worker.py'' [''chat'', ''hello''])) = [] \<and>
   fst (invoke utf8_stdout (stub_reply ''4'') ''ai_worker.py'' [''chat'', ''hello'']) = Inr ()"
proof -
  have h1: "2 \<le> length [''chat'', ''hello'']" by simp
  have h2: "lower (hd [''chat'', ''hello'']) \<noteq> ''ollama''"
    by (simp add: lower_chat)
  from unknown_command_reported [OF h1 h2] h1 h2 show ?thesis
    by simp
qed

subsection \<open>The submitted prompt\<close>

text \<open>
  Claim C5. For every invocation with at least two arguments whose first argument
  matches \<open>ollama\<close> case-insensitively, the prompt text submitted to the backend is the
  concatenation of all arguments after the first, joined with single spaces, each
  argument's text unchanged.
\<close>

theorem prompt_is_space_joined_arguments:
  assumes "2 \<le> length args"
      and "lower (hd args) = ''ollama''"
  shows "map (\<lambda>r. map content (messages r)) (requests (snd (invoke enc b prog args))) =
           [[spec_prompt_text (tl args)]]"
  using assms by (simp add: invoke_requests join_space_spec)

theorem prompt_is_space_joined_arguments_witness:
  "2 \<le> length [''Ollama'', ''what'', ''is'', ''2+2?''] \<and>
   lower (hd [''Ollama'', ''what'', ''is'', ''2+2?'']) = ''ollama'' \<and>
   spec_prompt_text (tl [''Ollama'', ''what'', ''is'', ''2+2?'']) = ''what is 2+2?'' \<and>
   map (\<lambda>r. map content (messages r))
     (requests (snd (invoke utf8_stdout (stub_reply ''4'') ''ai_worker.py''
                       [''Ollama'', ''what'', ''is'', ''2+2?'']))) =
     [[''what is 2+2?'']]"
proof -
  have h1: "2 \<le> length [''Ollama'', ''what'', ''is'', ''2+2?'']" by simp
  have h2: "lower (hd [''Ollama'', ''what'', ''is'', ''2+2?'']) = ''ollama''"
    by (simp add: lower_mixed_case)
  have h3: "spec_prompt_text (tl [''Ollama'', ''what'', ''is'', ''2+2?'']) = ''what is 2+2?''"
    by (simp add: spec_prompt_text_def)
  from prompt_is_space_joined_arguments [OF h1 h2] h1 h2 h3 show ?thesis
    by simp
qed

subsection \<open>The request handed to the backend\<close>

text \<open>
  Claim C7. For every prompt text, the chat operation submits to the backend exactly one
  message, with role \<open>user\<close> and the prompt text as content; dispatched from the command
  line, the request names the default model \<open>deepseek-r1:1.5b\<close>. The first part is about
  \<open>ollama_chat\<close> with any model argument and in any world, the second about a whole
  invocation.
\<close>

theorem chat_request_shape:
  "requests (snd (ollama_chat enc b prompt_text model_arg w)) =
     requests w @
       [\<lparr>model = (case model_arg of None \<Rightarrow> ''deepseek-r1:1.5b'' | Some m \<Rightarrow> m),
         messages = [\<lparr>role = ''user'', content = prompt_text\<rparr>]\<rparr>] \<and>
   (2 \<le> length args \<and> lower (hd args) = ''ollama'' \<longrightarrow>
      requests (snd (invoke enc b prog args)) =
        [\<lparr>model = ''deepseek-r1:1.5b'',
          messages = [\<lparr>role = ''user'', content = join '' '' (tl args)\<rparr>]\<rparr>])"
  by (simp add: ollama_chat_requests invoke_requests)

theorem chat_request_shape_witness:
  "requests (snd (ollama_chat utf8_stdout (stub_reply ''4'') ''hi'' (Some ''llama3'') start)) =
     [\<lparr>model = ''llama3'', messages = [\<lparr>role = ''user'', content = ''hi''\<rparr>]\<rparr>] \<and>
   2 \<le> length [''ollama'', ''hi'', ''there''] \<and>
   lower (hd [''ollama'', ''hi'', ''there'']) = ''ollama'' \<and>
   requests (snd (invoke utf8_stdout (stub_reply ''4'') ''ai_worker.py'' [''ollama'', ''hi'', ''there''])) =
     [\<lparr>model = ''deepseek-r1:1.5b'',
       messages = [\<lparr>role = ''user'', content = ''hi there''\<rparr>]\<rparr>]"
proof -
  have h1: "2 \<le> length [''ollama'', ''hi'', ''there'']" by simp
  have h2: "lower (hd [''ollama'', ''hi'', ''there'']) = ''ollama''"
    by (simp add: lower_lower_case)
  from chat_request_shape
         [where enc = utf8_stdout and b = "stub_reply ''4''" and prompt_text = "''hi''"
            and model_arg = "Some ''llama3''"
            and w = start and args = "[''ollama'', ''hi'', ''there'']" and prog = "''ai_worker.py''"]
       h1 h2
  show ?thesis
    by (simp add: start_def)
qed

subsection \<open>Case-insensitive dispatch\<close>

text \<open>
  Claim C6, as stated: for every pair of argument lists that differ only in the letter
  case of the first argument, if the lowercased first arguments are \<open>ollama\<close> then both
  invocations take the chat path. The single-argument lists \<open>OLLAMA\<close> and \<open>ollama\<close>
  are such a pair, and neither invocation takes the chat path: the length check comes
  first, no request is submitted and the usage message is written.
\<close>

theorem single_argument_not_dispatched:
  "lower ''OLLAMA'' = lower ''ollama'' \<and>
   lower ''ollama'' = ''ollama'' \<and>
   requests (snd (invoke utf8_stdout (stub_reply ''4'') ''ai_worker.py'' [''OLLAMA''])) = [] \<and>
   requests (snd (invoke utf8_stdout (stub_reply ''4'') ''ai_worker.py'' [''ollama''])) = [] \<and>
   stderr (snd (invoke utf8_stdout (stub_reply ''4'') ''ai_worker.py'' [''OLLAMA''])) =
     ''Usage: ai_worker.py ollama <prompt_text>\<newline>''"
  by (simp add: lower_upper_case lower_lower_case invoke_usage start_def)

text \<open>
  Claim C6, amended: for every pair of argument lists with at least two arguments that
  differ only in the letter case of the first argument, if the lowercased first
  arguments are \<open>ollama\<close> then both invocations take the chat path with the same
  submitted prompt and model, and behave identically altogether.
\<close>

theorem dispatch_ignores_letter_case:
  assumes "lower a1 = lower a2"
      and "lower a1 = ''ollama''"
      and "rest \<noteq> []"
  shows "requests (snd (invoke enc b prog (a1 # rest))) =
           [\<lparr>model = ''deepseek-r1:1.5b'',
             messages = [\<lparr>role = ''user'', content = join '' '' rest\<rparr>]\<rparr>] \<and>
         requests (snd (invoke enc b prog (a2 # rest))) =
           [\<lparr>model = ''deepseek-r1:1.5b'',
             messages = [\<lparr>role = ''user'', content = join '' '' rest\<rparr>]\<rparr>] \<and>
         invoke enc b prog (a1 # rest) = invoke enc b prog (a2 # rest)"
proof -
  from assms(3) have two: "2 \<le> length (a1 # rest)" "2 \<le> length (a2 # rest)"
    by (cases rest; simp)+
  from assms(1,2) have c1: "lower (hd (a1 # rest)) = ''ollama''"
    and c2: "lower (hd (a2 # rest)) = ''ollama''"
    by simp_all
  have "invoke enc b prog (a1 # rest) = ollama_chat enc b (join '' '' rest) None start"
    using invoke_chat [OF two(1) c1] by simp
  moreover have "invoke enc b prog (a2 # rest) = ollama_chat enc b (join '' '' rest) None start"
    using invoke_chat [OF two(2) c2] by simp
  ultimately show ?thesis
    by (simp add: ollama_chat_requests start_def)
qed

theorem dispatch_ignores_letter_case_witness:
  "lower ''OLLAMA'' = lower ''Ollama'' \<and>
   lower ''OLLAMA'' = ''ollama'' \<and>
   lower ''Ollama'' = lower ''ollama'' \<and>
   lower ''Ollama'' = ''ollama'' \<and>
   [''2+2?''] \<noteq> [] \<and>
   requests (snd (invoke utf8_stdout (stub_reply ''4'') ''ai_worker.py'' [''OLLAMA'', ''2+2?''])) =
     [\<lparr>model = ''deepseek-r1:1.5b'', messages = [\<lparr>role = ''user'', content = ''2+2?''\<rparr>]\<rparr>] \<and>
   invoke utf8_stdout (stub_reply ''4'') ''ai_worker.py'' [''OLLAMA'', ''2+2?''] =
     invoke utf8_stdout (stub_reply ''4'') ''ai_worker.py'' [''Ollama'', ''2+2?''] \<and>
   invoke utf8_stdout (stub_reply ''4'') ''ai_worker.py'' [''Ollama'', ''2+2?''] =
     invoke utf8_stdout (stub_reply ''4'') ''ai_worker.py'' [''ollama'', ''2+2?'']"
proof -
  have h1: "lower ''OLLAMA'' = lower ''Ollama''"
    by (simp add: lower_upper_case lower_mixed_case)
  have h2: "lower ''OLLAMA'' = ''ollama''"
    by (rule lower_upper_case)
  have h3: "lower ''Ollama'' = lower ''ollama''"
    by (simp add: lower_mixed_case lower_lower_case)
  have h4: "lower ''Ollama'' = ''ollama''"
    by (rule lower_mixed_case)
  have h5: "[''2+2?''] \<noteq> []" by simp
  from dispatch_ignores_letter_case
         [OF h1 h2 h5, where enc = utf8_stdout and b = "stub_reply ''4''" and prog = "''ai_worker.py''"]
       dispatch_ignores_letter_case
         [OF h3 h4 h5, where enc = utf8_stdout and b = "stub_reply ''4''" and prog = "''ai_worker.py''"]
       h1 h2 h3 h4
  show ?thesis
    by simp
qed

subsection \<open>What standard output carries\<close>

lemma main_branches:
  "main enc b argv w =
     (if length argv < 3
      then (Inr (), stderr_write ''Usage: ai_worker.py ollama <prompt_text>\<newline>'' w)
      else if lower (argv ! 1) = ''ollama''
      then ollama_chat enc b (join '' '' (drop 2 argv)) None w
      else (Inr (),
            stderr_write ''Unknown command. Use: ai_worker.py ollama <prompt_text>\<newline>'' w))"
  by (simp add: main_def Let_def)

lemma ollama_chat_streams:
  "(stdout (snd (ollama_chat enc b prompt_text model_arg start)) = [] \<or>
    (\<exists>req c. requests (snd (ollama_chat enc b prompt_text model_arg start)) = [req] \<and>
       b req = Response c \<and>
       stdout (snd (ollama_chat enc b prompt_text model_arg start)) = c @ ''\<newline>'')) \<and>
   (stderr (snd (ollama_chat enc b prompt_text model_arg start)) \<noteq> [] \<longrightarrow>
      stdout (snd (ollama_chat enc b prompt_text model_arg start)) = [])"
  by (simp add: ollama_chat_def chat_def print_def stderr_write_def start_def Let_def
           split: chat_result.split option.split)

text \<open>
  Claim C8. For every invocation, whatever the arguments and whatever the backend does,
  standard output carries either exactly the model's reply and one newline (the backend
  call of the invocation returned that reply) or nothing at all; whenever a diagnostic
  has been written to standard error (usage, unknown command, backend error), standard
  output is empty.
\<close>

theorem stdout_reply_or_nothing:
  "(stdout (snd (main enc b argv start)) = [] \<or>
    (\<exists>req c. requests (snd (main enc b argv start)) = [req] \<and> b req = Response c \<and>
       stdout (snd (main enc b argv start)) = c @ ''\<newline>'')) \<and>
   (stderr (snd (main enc b argv start)) \<noteq> [] \<longrightarrow> stdout (snd (main enc b argv start)) = [])"
proof (cases "length argv < 3")
  case True
  then show ?thesis
    by (simp add: main_branches stderr_write_def start_def)
next
  case long: False
  show ?thesis
  proof (cases "lower (argv ! 1) = ''ollama''")
    case True
    with long have "main enc b argv start = ollama_chat enc b (join '' '' (drop 2 argv)) None start"
      by (simp add: main_branches)
    with ollama_chat_streams [of enc b "join '' '' (drop 2 argv)" None] show ?thesis
      by simp
  next
    case False
    with long show ?thesis
      by (simp add: main_branches stderr_write_def start_def)
  qed
qed

theorem stdout_reply_or_nothing_witness:
  "stderr (snd (main utf8_stdout (stub_raise (PyException True ''model not found''))
                     [''ai_worker.py'', ''ollama'', ''hi''] start)) \<noteq> [] \<and>
   stdout (snd (main utf8_stdout (stub_raise (PyException True ''model not found''))
                     [''ai_worker.py'', ''ollama'', ''hi''] start)) = []"
proof -
  have h: "stderr (snd (main utf8_stdout (stub_raise (PyException True ''model not found''))
                     [''ai_worker.py'', ''ollama'', ''hi''] start)) \<noteq> []"
    by (simp add: main_branches lower_lower_case ollama_chat_def chat_def stub_raise_def
          stderr_write_def start_def)
  from stdout_reply_or_nothing
         [of utf8_stdout "stub_raise (PyException True ''model not found'')"
             "[''ai_worker.py'', ''ollama'', ''hi'']"] h
  show ?thesis
    by simp
qed

end
